theory Spec2Isabelle
  imports Complex_Main
begin

section \<open>Exceptions\<close>

text \<open>
  The Python exceptions that the modelled code can raise by itself:
  \<open>ZeroDivisionError\<close> from \<open>/=\<close> on a zero sample count, \<open>RuntimeError\<close> from
  \<open>torch.stack\<close> on an empty list, \<open>KeyError\<close> from a dictionary lookup,
  \<open>IndexError\<close> from indexing the classifier matrix, and \<open>OverflowError\<close> from
  converting an integer too large for a float, or an infinite float to an integer.
\<close>

datatype py_error = ZeroDivisionError | RuntimeError | KeyError | IndexError | OverflowError

section \<open>Training epochs (fs/ln\_only.py, fs/twostage.py)\<close>

text \<open>
  One iteration of a batch loop observes the following of its collaborators (the encoders,
  \<open>cls_acc\<close>, the loss and the gradient scaler, none of which is part of the two files):
  the number of samples \<open>target.shape[0]\<close>, the value of \<open>cls_acc\<close>, the value of
  \<open>loss.item()\<close>, and the two readings of \<open>scaler.get_scale()\<close>, the one taken before
  \<open>scaler.update()\<close> and the one taken after it. A pass over the loader is the list of
  these observations. The values are Python floats in the source; the order of two finite
  floats is their order as real numbers, and no statement below depends on the rounding
  of the accumulated sums.
\<close>

record batch =
  batch_size :: nat
  batch_acc :: real
  batch_loss :: real
  scale_before :: real
  scale_after :: real

text \<open>
  The cosine scheduler of \<open>torch.optim.lr_scheduler\<close>: its horizon and the number of
  \<open>step()\<close> calls made so far. The learning rate it reports is a function of these two.
\<close>

record lr_scheduler =
  T_max :: int
  last_epoch :: int

definition scheduler_step :: "lr_scheduler \<Rightarrow> lr_scheduler" where
  "scheduler_step sch = sch\<lparr>last_epoch := last_epoch sch + 1\<rparr>"

text \<open>
  The local variables of an epoch function, and the line it prints. \<open>batches_run\<close> is
  the number of iterations of the batch loop that were entered (the index of
  \<open>enumerate\<close> plus one); the source does not keep it, and it has no influence on the
  other fields. The line records the scheduler at the moment \<open>get_last_lr()\<close> is read.
  Moving tensors to the device, \<open>autocast\<close>, \<open>optimizer.zero_grad()\<close> and the switch
  to training mode act on the collaborators only and are not part of the model.
\<close>

record epoch_state =
  count_iters :: int
  scheduler :: lr_scheduler
  acc_train :: real
  loss_epoch :: real
  tot_samples :: nat
  batches_run :: nat

record log_line =
  log_count :: int
  log_total :: int
  log_lr_of :: lr_scheduler
  log_acc :: real
  log_loss :: real

definition enter_epoch :: "lr_scheduler \<Rightarrow> int \<Rightarrow> epoch_state" where
  "enter_epoch sch count =
     \<lparr>count_iters = count, scheduler = sch, acc_train = 0, loss_epoch = 0,
      tot_samples = 0, batches_run = 0\<rparr>"

definition accumulate :: "batch \<Rightarrow> epoch_state \<Rightarrow> epoch_state" where
  "accumulate b s =
     s\<lparr>acc_train := acc_train s + batch_acc b * real (batch_size b),
       loss_epoch := loss_epoch s + batch_loss b * real (batch_size b),
       tot_samples := tot_samples s + batch_size b,
       batches_run := batches_run s + 1\<rparr>"

text \<open>
  Body of the loop of \<open>train_epoch\<close> in fs/ln\_only.py (lines 38 to 50): the scheduler is
  stepped and the counter incremented in every batch.
\<close>

definition ln_only_batch :: "batch \<Rightarrow> epoch_state \<Rightarrow> epoch_state" where
  "ln_only_batch b s =
     (let s1 = s\<lparr>scheduler := scheduler_step (scheduler s)\<rparr>;
          s2 = accumulate b s1
      in s2\<lparr>count_iters := count_iters s2 + 1\<rparr>)"

fun ln_only_loop :: "int \<Rightarrow> batch list \<Rightarrow> epoch_state \<Rightarrow> epoch_state" where
  "ln_only_loop total_iters [] s = s"
| "ln_only_loop total_iters (b # bs) s =
     (let s' = ln_only_batch b s
      in if count_iters s' = total_iters then s' else ln_only_loop total_iters bs s')"

text \<open>
  Body of the loops of \<open>train_epoch\<close> and \<open>train_epoch_second_stage\<close> in
  fs/twostage.py (lines 221 to 234 and 162 to 175).
\<close>

definition skip_lr_sched :: "batch \<Rightarrow> bool" where
  "skip_lr_sched b = (scale_before b > scale_after b)"

definition twostage_batch :: "batch \<Rightarrow> epoch_state \<Rightarrow> epoch_state" where
  "twostage_batch b s =
     (let s1 = (if \<not> skip_lr_sched b
                then s\<lparr>scheduler := scheduler_step (scheduler s),
                       count_iters := count_iters s + 1\<rparr>
                else s)
      in accumulate b s1)"

fun twostage_loop :: "int \<Rightarrow> batch list \<Rightarrow> epoch_state \<Rightarrow> epoch_state" where
  "twostage_loop total_iters [] s = s"
| "twostage_loop total_iters (b # bs) s =
     (let s' = twostage_batch b s
      in if count_iters s' = total_iters then s' else twostage_loop total_iters bs s')"

text \<open>
  The code after the loop, the same in the three epoch functions: the averages and the
  printed line under \<open>count_iters <= total_iters\<close>, then the return. The division
  \<open>acc_train /= tot_samples\<close> comes first and raises on a zero count.
\<close>

definition print_after_epoch :: "int \<Rightarrow> epoch_state \<Rightarrow> py_error + (epoch_state \<times> log_line option)" where
  "print_after_epoch total_iters s =
     (if count_iters s \<le> total_iters then
        (if tot_samples s = 0 then Inl ZeroDivisionError
         else
           (let s' = s\<lparr>acc_train := acc_train s / real (tot_samples s),
                      loss_epoch := loss_epoch s / real (tot_samples s)\<rparr>
            in Inr (s', Some \<lparr>log_count = count_iters s', log_total = total_iters,
                              log_lr_of = scheduler s', log_acc = acc_train s',
                              log_loss = loss_epoch s'\<rparr>)))
      else Inr (s, None))"

definition ln_only_train_epoch ::
  "lr_scheduler \<Rightarrow> batch list \<Rightarrow> int \<Rightarrow> int \<Rightarrow> py_error + (epoch_state \<times> log_line option)" where
  "ln_only_train_epoch sch train_loader count total_iters =
     print_after_epoch total_iters (ln_only_loop total_iters train_loader (enter_epoch sch count))"

text \<open>
  \<open>train_epoch\<close> and \<open>train_epoch_second_stage\<close> of fs/twostage.py differ in how the
  logits of a batch are computed (both encoders of the dual encoder in the first, the
  classifier over the frozen backbone in the second), which is what a batch observation
  abstracts from; their loops and what follows the loops are the same statements.
\<close>

definition twostage_train_epoch ::
  "lr_scheduler \<Rightarrow> batch list \<Rightarrow> int \<Rightarrow> int \<Rightarrow> py_error + (epoch_state \<times> log_line option)" where
  "twostage_train_epoch sch train_loader count total_iters =
     print_after_epoch total_iters (twostage_loop total_iters train_loader (enter_epoch sch count))"

definition train_epoch_second_stage ::
  "lr_scheduler \<Rightarrow> batch list \<Rightarrow> int \<Rightarrow> int \<Rightarrow> py_error + (epoch_state \<times> log_line option)" where
  "train_epoch_second_stage sch train_loader count total_iters =
     print_after_epoch total_iters (twostage_loop total_iters train_loader (enter_epoch sch count))"

section \<open>The single-stream classifier (fs/twostage.py)\<close>

text \<open>
  The tensor operations of the collaborators, as functions over abstract image batches
  \<open>'img\<close>, label batches \<open>'tgt\<close>, embedding rows \<open>'row\<close> and logit tensors \<open>'out\<close>:
  \<^item> \<open>encode_text template cat\<close> is the row that \<open>tokenize_texts\<close> followed by
    \<open>clip_model.encode_text\<close> yields for the class name \<open>cat\<close> (the encoder maps a
    batch of prompts row by row);
  \<^item> \<open>normalize_rows m\<close> is \<open>m / m.norm(dim=-1, keepdim=True)\<close>;
  \<^item> \<open>scaled_similarity x m\<close> is \<open>logit_scale.exp() * x' @ m.t()\<close> for the normalised
    backbone features \<open>x'\<close> of the images \<open>x\<close>;
  \<^item> \<open>cls_acc\<close> and \<open>len_logits\<close> are \<open>cls_acc\<close> and \<open>len\<close> on a logit tensor.
\<close>

record ('img, 'tgt, 'row, 'out) externals =
  encode_text :: "string \<Rightarrow> string \<Rightarrow> 'row"
  normalize_rows :: "'row list \<Rightarrow> 'row list"
  scaled_similarity :: "'img \<Rightarrow> 'row list \<Rightarrow> 'out"
  cls_acc :: "'out \<Rightarrow> 'tgt \<Rightarrow> real"
  len_logits :: "'out \<Rightarrow> nat"

text \<open>
  An instance of \<open>SingleStreamClassifier\<close>: the trained matrix, the dictionary from class
  name to row index, and the attribute \<open>inference_classifier\<close>, which exists or not.
  \<open>text_calls\<close> is the history of the invocations of the text encoder made through the
  instance, each with its template and its list of class names.
\<close>

record 'row single_stream_classifier =
  classifier :: "'row list"
  cat2id :: "string \<rightharpoonup> nat"
  inference_classifier :: "'row list option"
  text_calls :: "(string \<times> string list) list"

text \<open>A Python dictionary built from a sequence of pairs: a later pair replaces an earlier one.\<close>

definition py_dict :: "('k \<times> 'v) list \<Rightarrow> ('k \<rightharpoonup> 'v)" where
  "py_dict kvs = map_of (rev kvs)"

text \<open>A list comprehension whose elements may raise: the first exception ends it.\<close>

fun collect :: "('e + 'a) list \<Rightarrow> 'e + 'a list" where
  "collect [] = Inr []"
| "collect (x # xs) =
     (case x of
        Inl e \<Rightarrow> Inl e
      | Inr v \<Rightarrow> (case collect xs of Inl e \<Rightarrow> Inl e | Inr vs \<Rightarrow> Inr (v # vs)))"

text \<open>\<open>__init__\<close> with \<open>_init_classifier\<close> (lines 40 to 65).\<close>

definition init_classifier ::
  "('img, 'tgt, 'row, 'out) externals \<Rightarrow> string list \<Rightarrow> string \<Rightarrow> 'row single_stream_classifier" where
  "init_classifier E classnames template =
     \<lparr>classifier = normalize_rows E (map (encode_text E template) classnames),
      cat2id = py_dict (zip classnames [0 ..< length classnames]),
      inference_classifier = None,
      text_calls = [(template, classnames)]\<rparr>"


text \<open>
  \<open>infer\<close> (lines 80 to 113). The instance is mutated in place, so the model returns it
  together with the logits or the exception; an exception leaves the instance as the
  statements before it have made it. The two dictionaries \<open>cat2new\<close> and \<open>cat2known\<close>
  are built as in the source, and so is the list of rows, whose lookups can raise. The
  cast \<open>.to(x)\<close> changes the type and the device of the stacked rows and is not part of
  the model.
\<close>

definition infer ::
  "('img, 'tgt, 'row, 'out) externals \<Rightarrow> 'row single_stream_classifier \<Rightarrow> 'img \<Rightarrow> string list \<Rightarrow>
   string \<Rightarrow> bool \<Rightarrow> 'row single_stream_classifier \<times> (py_error + 'out)" where
  "infer E m x categories template compute_classifier_once =
     (if compute_classifier_once \<and> inference_classifier m \<noteq> None then
        (m, Inr (scaled_similarity E x (the (inference_classifier m))))
      else
        (let missing_classnames = filter (\<lambda>cat. cat2id m cat = None) categories;
             m1 = m\<lparr>text_calls := text_calls m @ [(template, missing_classnames)]\<rparr>;
             new_embeddings = map (encode_text E template) missing_classnames;
             cat2new = py_dict (zip missing_classnames new_embeddings);
             known = filter (\<lambda>cat. cat2id m cat \<noteq> None) categories
         in if list_ex (\<lambda>cat. length (classifier m) \<le> the (cat2id m cat)) known then
              (m1, Inl IndexError)
            else
              (let cat2known = py_dict (map (\<lambda>cat. (cat, classifier m ! the (cat2id m cat))) known);
                   rows = collect (map (\<lambda>cat.
                            (case cat2new cat of
                               Some r \<Rightarrow> Inr r
                             | None \<Rightarrow> (case cat2known cat of
                                          Some r \<Rightarrow> Inr r
                                        | None \<Rightarrow> Inl KeyError))) categories)
               in case rows of
                    Inl e \<Rightarrow> (m1, Inl e)
                  | Inr rs \<Rightarrow>
                      (if rs = [] then (m1, Inl RuntimeError)
                       else
                         (let c = normalize_rows E rs;
                              m2 = m1\<lparr>inference_classifier := Some c\<rparr>
                          in (m2, Inr (scaled_similarity E x c)))))))"

text \<open>\<open>evaluate_selective_inference\<close> (lines 117 to 142); a batch is a pair of images and labels.\<close>

fun eval_loop ::
  "('img, 'tgt, 'row, 'out) externals \<Rightarrow> string \<Rightarrow> string list \<Rightarrow> ('img \<times> 'tgt) list \<Rightarrow>
   'row single_stream_classifier \<Rightarrow> real \<Rightarrow> nat \<Rightarrow>
   'row single_stream_classifier \<times> (py_error + real \<times> nat)" where
  "eval_loop E template classnames [] m acc tot = (m, Inr (acc, tot))"
| "eval_loop E template classnames ((images, target) # bs) m acc tot =
     (case infer E m images classnames template True of
        (m', Inl e) \<Rightarrow> (m', Inl e)
      | (m', Inr logits) \<Rightarrow>
          eval_loop E template classnames bs m'
            (acc + cls_acc E logits target * real (len_logits E logits))
            (tot + len_logits E logits))"

definition evaluate_selective_inference ::
  "('img, 'tgt, 'row, 'out) externals \<Rightarrow> 'row single_stream_classifier \<Rightarrow> ('img \<times> 'tgt) list \<Rightarrow>
   string \<Rightarrow> string list \<Rightarrow> 'row single_stream_classifier \<times> (py_error + real)" where
  "evaluate_selective_inference E model loader template classnames =
     (let m0 = model\<lparr>inference_classifier := None\<rparr>
      in case eval_loop E template classnames loader m0 0 0 of
           (m', Inl e) \<Rightarrow> (m', Inl e)
         | (m', Inr (acc, tot)) \<Rightarrow>
             (if tot = 0 then (m', Inl ZeroDivisionError)
              else (m', Inr (acc / real tot))))"

section \<open>The two training stages of \<open>run_twostage\<close> (fs/twostage.py, lines 261 to 310)\<close>

record args =
  n_iters :: int
  shots :: int
  n_iters_frac :: real
  debug :: bool

text \<open>
  Python's floats are IEEE binary64 numbers. Converting an integer to a float and
  multiplying two floats both give the float nearest to the exact result, a tie going to
  the float whose last significand bit is even. \<open>double_round x\<close> is that float for a
  real \<open>x\<close>: in the binade \<open>2^e \<le> |x| < 2^(e+1)\<close> the floats are the multiples of
  \<open>2^(e-52)\<close>, and below \<open>2^(-1022)\<close> they are the multiples of \<open>2^(-1074)\<close>. A result
  of magnitude \<open>2^1024\<close> or more stands for an infinity.
\<close>

definition round_half_even :: "real \<Rightarrow> int" where
  "round_half_even x =
     (let f = \<lfloor>x\<rfloor>
      in if x - real_of_int f < 1 / 2 then f
         else if 1 / 2 < x - real_of_int f then f + 1
         else if even f then f else f + 1)"

definition double_round :: "real \<Rightarrow> real" where
  "double_round x =
     (if x = 0 then 0
      else
        (let e = max \<lfloor>log 2 \<bar>x\<bar>\<rfloor> (- 1022);
             ulp = 2 powr real_of_int (e - 52)
         in ulp * real_of_int (round_half_even (x / ulp))))"

text \<open>\<open>int(x)\<close> on a finite float truncates towards zero.\<close>

definition py_int :: "real \<Rightarrow> int" where
  "py_int x = (if 0 \<le> x then \<lfloor>x\<rfloor> else \<lceil>x\<rceil>)"

text \<open>
  \<open>int(total_iters*args.n_iters_frac)\<close> (line 262), for a finite float
  \<open>n_iters_frac\<close>: the integer is converted to a float, which raises when it is too
  large; the product is rounded; and \<open>int\<close> raises on an infinite product.
\<close>

definition cosine_budget :: "int \<Rightarrow> real \<Rightarrow> py_error + int" where
  "cosine_budget total_iters fraction =
     (let t = double_round (real_of_int total_iters)
      in if 2 ^ 1024 \<le> \<bar>t\<bar> then Inl OverflowError
         else
           (let p = double_round (t * fraction)
            in if 2 ^ 1024 \<le> \<bar>p\<bar> then Inl OverflowError else Inr (py_int p)))"

text \<open>
  A \<open>while\<close> loop of the orchestrator makes one pass over the training loader per
  iteration, and nothing bounds the number of passes: a pass in which the scaler skips
  every step leaves the counter where it was. The model is given the passes as a list, one
  list of batch observations per pass, and answers \<open>Still_running\<close> when the list ends
  before the loop does.
\<close>

datatype 'a outcome = Returned 'a | Raised py_error | Still_running

record stage_state =
  stage_count :: int
  stage_scheduler :: lr_scheduler
  stage_printed :: "log_line list"

definition after_epoch :: "stage_state \<Rightarrow> epoch_state \<times> log_line option \<Rightarrow> stage_state" where
  "after_epoch st r =
     \<lparr>stage_count = count_iters (fst r), stage_scheduler = scheduler (fst r),
      stage_printed = stage_printed st @ (case snd r of None \<Rightarrow> [] | Some l \<Rightarrow> [l])\<rparr>"

fun first_stage ::
  "bool \<Rightarrow> int \<Rightarrow> batch list list \<Rightarrow> stage_state \<Rightarrow> (stage_state \<times> batch list list) outcome" where
  "first_stage dbg cosine_iters [] st =
     (if stage_count st < cosine_iters then Still_running else Returned (st, []))"
| "first_stage dbg cosine_iters (p # passes) st =
     (if stage_count st < cosine_iters then
        (case twostage_train_epoch (stage_scheduler st) p (stage_count st) cosine_iters of
           Inl e \<Rightarrow> Raised e
         | Inr r \<Rightarrow>
             (if dbg then Returned (after_epoch st r, passes)
              else first_stage dbg cosine_iters passes (after_epoch st r)))
      else Returned (st, p # passes))"

fun second_stage ::
  "bool \<Rightarrow> int \<Rightarrow> batch list list \<Rightarrow> stage_state \<Rightarrow> (stage_state \<times> batch list list) outcome" where
  "second_stage dbg total_iters [] st =
     (if stage_count st < total_iters then Still_running else Returned (st, []))"
| "second_stage dbg total_iters (p # passes) st =
     (if stage_count st < total_iters then
        (case train_epoch_second_stage (stage_scheduler st) p (stage_count st) total_iters of
           Inl e \<Rightarrow> Raised e
         | Inr r \<Rightarrow>
             (if dbg then Returned (after_epoch st r, passes)
              else second_stage dbg total_iters passes (after_epoch st r)))
      else Returned (st, p # passes))"

record training_result =
  first_stage_end :: stage_state
  second_stage_end :: stage_state

definition run_twostage_training :: "args \<Rightarrow> batch list list \<Rightarrow> training_result outcome" where
  "run_twostage_training a passes =
     (let total_iters = n_iters a * shots a
      in case cosine_budget total_iters (n_iters_frac a) of
           Inl e \<Rightarrow> Raised e
         | Inr cosine_iters \<Rightarrow>
             (let sch1 = \<lparr>T_max = cosine_iters, last_epoch = 0\<rparr>
              in case first_stage (debug a) cosine_iters passes
                        \<lparr>stage_count = 0, stage_scheduler = sch1, stage_printed = []\<rparr> of
                   Raised e \<Rightarrow> Raised e
                 | Still_running \<Rightarrow> Still_running
                 | Returned (st1, rest) \<Rightarrow>
                     (let second_stage_iters = total_iters - stage_count st1;
                          sch2 = \<lparr>T_max = second_stage_iters, last_epoch = 0\<rparr>
                      in case second_stage (debug a) total_iters rest
                                (st1\<lparr>stage_scheduler := sch2\<rparr>) of
                           Raised e \<Rightarrow> Raised e
                         | Still_running \<Rightarrow> Still_running
                         | Returned (st2, _) \<Rightarrow>
                             Returned \<lparr>first_stage_end = st1, second_stage_end = st2\<rparr>)))"

section \<open>Notions used to state the properties\<close>

text \<open>What the caller of an epoch function receives as \<open>count_iters\<close>, if the call returns.\<close>

definition returned_count :: "py_error + (epoch_state \<times> log_line option) \<Rightarrow> int option" where
  "returned_count r = (case r of Inl e \<Rightarrow> None | Inr (s, l) \<Rightarrow> Some (count_iters s))"

text \<open>The line an epoch call printed, if it returned and printed one.\<close>

definition printed_line :: "py_error + (epoch_state \<times> log_line option) \<Rightarrow> log_line option" where
  "printed_line r = (case r of Inl e \<Rightarrow> None | Inr (s, l) \<Rightarrow> l)"

text \<open>The number of batches of a list in which the scaler did not skip the step.\<close>

definition steps_taken :: "batch list \<Rightarrow> nat" where
  "steps_taken bs = length (filter (\<lambda>b. \<not> skip_lr_sched b) bs)"

text \<open>
  The inference classifier in the words of the specification: one row per category, in the
  order of \<open>categories\<close>; the row of the trained matrix for a category of the class-to-index
  mapping, the text encoder's row for any other; then the normalisation.
\<close>

definition assembled_classifier ::
  "('img, 'tgt, 'row, 'out) externals \<Rightarrow> 'row single_stream_classifier \<Rightarrow> string list \<Rightarrow> string \<Rightarrow>
   'row list" where
  "assembled_classifier E m categories template =
     normalize_rows E
       (map (\<lambda>cat. case cat2id m cat of
                      None \<Rightarrow> encode_text E template cat
                    | Some i \<Rightarrow> classifier m ! i) categories)"

text \<open>
  Some category of the list is mapped to an index that is not a row of the trained matrix.
  (\<open>__init__\<close> numbers the class names it builds the matrix from, so this does not happen
  to an instance whose matrix has kept its shape.)
\<close>

definition row_out_of_range :: "'row single_stream_classifier \<Rightarrow> string list \<Rightarrow> bool" where
  "row_out_of_range m categories =
     list_ex (\<lambda>cat. case cat2id m cat of None \<Rightarrow> False | Some i \<Rightarrow> length (classifier m) \<le> i)
       categories"

text \<open>
  The weighted accuracy sum and the sample count of a loader when every batch is scored
  against one fixed class-embedding matrix.
\<close>

fun accuracy_sums ::
  "('img, 'tgt, 'row, 'out) externals \<Rightarrow> 'row list \<Rightarrow> ('img \<times> 'tgt) list \<Rightarrow> real \<Rightarrow> nat \<Rightarrow> real \<times> nat" where
  "accuracy_sums E c [] acc tot = (acc, tot)"
| "accuracy_sums E c ((images, target) # bs) acc tot =
     accuracy_sums E c bs
       (acc + cls_acc E (scaled_similarity E images c) target
              * real (len_logits E (scaled_similarity E images c)))
       (tot + len_logits E (scaled_similarity E images c))"

text \<open>
  A pass that advances the counter and can be averaged: every batch has a sample, and in
  at least one batch the scaler does not skip the step.
\<close>

definition productive :: "batch list \<Rightarrow> bool" where
  "productive p = (list_all (\<lambda>b. 0 < batch_size b) p \<and> list_ex (\<lambda>b. \<not> skip_lr_sched b) p)"

section \<open>Example inputs\<close>

text \<open>
  Batches as a gradient scaler with its default settings produces them: a step that is
  taken leaves the scale at 65536, an overflow halves it and the step is skipped, and
  after a run of steps without overflow the scale doubles.
\<close>

definition stepped_batch :: batch where
  "stepped_batch =
     \<lparr>batch_size = 4, batch_acc = 50, batch_loss = 1, scale_before = 65536, scale_after = 65536\<rparr>"

definition overflow_batch :: batch where
  "overflow_batch =
     \<lparr>batch_size = 4, batch_acc = 25, batch_loss = 2, scale_before = 65536, scale_after = 32768\<rparr>"

definition recovered_batch :: batch where
  "recovered_batch =
     \<lparr>batch_size = 4, batch_acc = 50, batch_loss = 1, scale_before = 32768, scale_after = 32768\<rparr>"

definition growth_batch :: batch where
  "growth_batch =
     \<lparr>batch_size = 4, batch_acc = 75, batch_loss = 1, scale_before = 65536, scale_after = 131072\<rparr>"

definition fresh_scheduler :: "int \<Rightarrow> lr_scheduler" where
  "fresh_scheduler horizon = \<lparr>T_max = horizon, last_epoch = 0\<rparr>"

text \<open>
  A symbolic choice of the tensor operations, so that a computed value shows which
  operations produced it: an image batch is its number of images, the row of a class name
  is its prompt, normalisation marks each row, and the logits of a batch are the pair of
  the batch and the matrix they were computed against.
\<close>

definition symbolic_externals :: "(nat, unit, string, nat \<times> string list) externals" where
  "symbolic_externals =
     \<lparr>encode_text = (\<lambda>template cat. template @ '':'' @ cat),
      normalize_rows = map (\<lambda>r. ''unit '' @ r),
      scaled_similarity = (\<lambda>x m. (x, m)),
      cls_acc = (\<lambda>logits target. 100),
      len_logits = fst\<rparr>"

definition pets_classifier :: "string single_stream_classifier" where
  "pets_classifier = init_classifier symbolic_externals [''cat'', ''dog''] ''a {}''"

section \<open>Row normalisation in exact arithmetic\<close>

text \<open>
  The operation \<open>m / m.norm(dim=-1, keepdim=True)\<close> on a matrix whose entries are real
  numbers: each row is divided by the square root of the sum of its squared entries. The
  rounding of the float types is not modelled. A row is a list of entries, or \<open>None\<close>
  for a row of NaN: dividing a row of zeros by its norm gives \<open>0 / 0\<close> in every entry,
  and a row of NaN stays one.
\<close>

definition l2_norm :: "real list \<Rightarrow> real" where
  "l2_norm v = sqrt (sum_list (map (\<lambda>a. a * a) v))"

definition normalize_row :: "real list option \<Rightarrow> real list option" where
  "normalize_row r =
     (case r of
        None \<Rightarrow> None
      | Some v \<Rightarrow> if v \<noteq> [] \<and> l2_norm v = 0 then None
                  else Some (map (\<lambda>a. a / l2_norm v) v))"

text \<open>The collaborators with this normalisation in the place of theirs.\<close>

definition exact_arith ::
  "('img, 'tgt, real list option, 'out) externals \<Rightarrow> ('img, 'tgt, real list option, 'out) externals" where
  "exact_arith E = E\<lparr>normalize_rows := map normalize_row\<rparr>"







section \<open>Facts about the batch loops\<close>

lemmas epoch_defs =
  ln_only_train_epoch_def twostage_train_epoch_def train_epoch_second_stage_def
  print_after_epoch_def enter_epoch_def ln_only_batch_def twostage_batch_def
  accumulate_def scheduler_step_def skip_lr_sched_def returned_count_def printed_line_def
  Let_def

lemmas example_defs =
  stepped_batch_def overflow_batch_def recovered_batch_def growth_batch_def fresh_scheduler_def

lemma accumulate_count [simp]: "count_iters (accumulate b s) = count_iters s"
  by (simp add: accumulate_def)

lemma ln_only_batch_count [simp]: "count_iters (ln_only_batch b s) = count_iters s + 1"
  by (simp add: ln_only_batch_def Let_def)

lemma twostage_batch_count:
  "count_iters (twostage_batch b s) = (if skip_lr_sched b then count_iters s else count_iters s + 1)"
  by (simp add: twostage_batch_def Let_def)

lemma ln_only_loop_le:
  "count_iters s < T \<Longrightarrow> count_iters (ln_only_loop T bs s) \<le> T"
  by (induction bs arbitrary: s) (auto simp: Let_def)

lemma twostage_loop_le:
  "count_iters s < T \<Longrightarrow> count_iters (twostage_loop T bs s) \<le> T"
  by (induction bs arbitrary: s) (auto simp: Let_def twostage_batch_count)

lemma ln_only_loop_break:
  "count_iters s < T \<Longrightarrow> count_iters (ln_only_loop T bs s) = T \<Longrightarrow>
   ln_only_loop T (bs @ rest) s = ln_only_loop T bs s"
  by (induction bs arbitrary: s) (auto simp: Let_def)

lemma twostage_loop_break:
  "count_iters s < T \<Longrightarrow> count_iters (twostage_loop T bs s) = T \<Longrightarrow>
   twostage_loop T (bs @ rest) s = twostage_loop T bs s"
  by (induction bs arbitrary: s) (auto simp: Let_def twostage_batch_count split: if_splits)

lemma print_after_epoch_Inl:
  "print_after_epoch T s = Inl e \<Longrightarrow> e = ZeroDivisionError"
  by (auto simp: print_after_epoch_def Let_def split: if_splits)

lemma print_after_epoch_count:
  "print_after_epoch T s = Inr (s', l) \<Longrightarrow> count_iters s' = count_iters s"
  by (auto simp: print_after_epoch_def Let_def split: if_splits)

lemma enter_epoch_count [simp]: "count_iters (enter_epoch sch c) = c"
  by (simp add: enter_epoch_def)

lemma print_after_epoch_budget:
  assumes le: "count_iters s \<le> T" and br: "count_iters s = T \<Longrightarrow> s2 = s"
  shows "case print_after_epoch T s of
           Inl e \<Rightarrow> e = ZeroDivisionError
         | Inr (s', l) \<Rightarrow> count_iters s' \<le> T \<and>
             (count_iters s' = T \<longrightarrow> print_after_epoch T s2 = print_after_epoch T s)"
proof (cases "print_after_epoch T s")
  case (Inl e)
  then show ?thesis by (simp add: print_after_epoch_Inl)
next
  case (Inr r)
  obtain s' l where r: "r = (s', l)" by (cases r)
  have c: "count_iters s' = count_iters s"
    using Inr r by (simp add: print_after_epoch_count)
  show ?thesis using Inr r c le br by auto
qed

lemma ln_only_loop_count:
  "count_iters s < T \<Longrightarrow>
   count_iters (ln_only_loop T bs s) = min (count_iters s + int (length bs)) T"
  by (induction bs arbitrary: s) (auto simp: Let_def)

lemma steps_taken_Cons:
  "steps_taken (b # bs) = (if skip_lr_sched b then steps_taken bs else Suc (steps_taken bs))"
  by (simp add: steps_taken_def)

lemma steps_taken_Nil [simp]: "steps_taken [] = 0"
  by (simp add: steps_taken_def)

lemma twostage_loop_count:
  "count_iters s < T \<Longrightarrow>
   count_iters (twostage_loop T bs s) = min (count_iters s + int (steps_taken bs)) T"
  by (induction bs arbitrary: s) (auto simp: Let_def twostage_batch_count steps_taken_Cons)

lemma steps_taken_le: "steps_taken bs \<le> length bs"
  by (simp add: steps_taken_def)

lemma steps_taken_less: "steps_taken bs < length bs \<longleftrightarrow> list_ex skip_lr_sched bs"
  by (induction bs) (auto simp: steps_taken_Cons less_Suc_eq_le steps_taken_le)

lemma returned_count_print:
  "returned_count (print_after_epoch T s) = Some n \<Longrightarrow> n = count_iters s"
  by (auto simp: returned_count_def print_after_epoch_def Let_def split: if_splits)

lemma counters_compared:
  fixes c T :: int and k n :: nat
  assumes "c < T" "k \<le> n"
  shows "min (c + int k) T \<le> min (c + int n) T"
    and "min (c + int n) T \<noteq> min (c + int k) T \<longleftrightarrow> k < n \<and> min (c + int k) T < T"
  using assms by auto

lemma twostage_batch_scheduler:
  "scheduler (twostage_batch b s) =
     (if skip_lr_sched b then scheduler s else scheduler_step (scheduler s))"
  by (simp add: twostage_batch_def accumulate_def Let_def)

lemma twostage_loop_scheduler:
  "last_epoch (scheduler (twostage_loop T bs s)) - last_epoch (scheduler s) =
     count_iters (twostage_loop T bs s) - count_iters s"
proof (induction bs arbitrary: s)
  case Nil
  then show ?case by simp
next
  case (Cons b bs)
  have step: "last_epoch (scheduler (twostage_batch b s)) - last_epoch (scheduler s) =
     count_iters (twostage_batch b s) - count_iters s"
    by (simp add: twostage_batch_scheduler twostage_batch_count scheduler_step_def)
  show ?case
    using step Cons.IH [of "twostage_batch b s"]
    by (simp add: Let_def)
qed

lemma print_after_epoch_scheduler:
  "print_after_epoch T s = Inr (s', l) \<Longrightarrow> scheduler s' = scheduler s"
  by (auto simp: print_after_epoch_def Let_def split: if_splits)

lemma steps_taken_scales:
  "steps_taken bs = length (filter (\<lambda>b. scale_before b \<le> scale_after b) bs)"
  by (simp add: steps_taken_def skip_lr_sched_def not_less)

lemma gated_epoch:
  assumes "print_after_epoch T (twostage_loop T bs (enter_epoch sch c)) = Inr (s', l)"
  shows "last_epoch (scheduler s') - last_epoch sch = count_iters s' - c
       \<and> (c < T \<longrightarrow>
            count_iters s' =
              min (c + int (length (filter (\<lambda>b. scale_before b \<le> scale_after b) bs))) T)"
proof -
  let ?s = "twostage_loop T bs (enter_epoch sch c)"
  have "scheduler s' = scheduler ?s" "count_iters s' = count_iters ?s"
    using assms by (simp_all add: print_after_epoch_scheduler print_after_epoch_count)
  moreover have "last_epoch (scheduler ?s) - last_epoch sch = count_iters ?s - c"
    using twostage_loop_scheduler [of T bs "enter_epoch sch c"] by (simp add: enter_epoch_def)
  moreover have "c < T \<Longrightarrow> count_iters ?s = min (c + int (steps_taken bs)) T"
    using twostage_loop_count [of "enter_epoch sch c" T bs] by simp
  ultimately show ?thesis by (simp add: steps_taken_scales)
qed

lemma print_after_epoch_line:
  "print_after_epoch T s = Inr (s', l) \<Longrightarrow>
   l = (if count_iters s' \<le> T
        then Some \<lparr>log_count = count_iters s', log_total = T, log_lr_of = scheduler s',
                   log_acc = acc_train s', log_loss = loss_epoch s'\<rparr>
        else None)"
  by (auto simp: print_after_epoch_def Let_def split: if_splits)

section \<open>Facts about the classifier\<close>

lemma py_dict_zip_map:
  "py_dict (zip xs (map f xs)) k = (if k \<in> set xs then Some (f k) else None)"
proof -
  have "rev (zip xs (map f xs)) = zip (rev xs) (map f (rev xs))"
    by (simp add: zip_rev [symmetric] rev_map)
  then show ?thesis
    by (simp add: py_dict_def map_of_zip_map)
qed

lemma py_dict_map_pair:
  "py_dict (map (\<lambda>k. (k, g k)) xs) k = (if k \<in> set xs then Some (g k) else None)"
proof -
  have "rev (map (\<lambda>k. (k, g k)) xs) = map (\<lambda>k. (k, g k)) (rev xs)"
    by (simp add: rev_map)
  then show ?thesis
    by (simp add: py_dict_def map_of_map_restrict restrict_map_def)
qed

lemma collect_map_Inr: "collect (map (\<lambda>x. Inr (f x)) xs) = Inr (map f xs)"
  by (induction xs) simp_all

lemma known_out_of_range:
  "list_ex (\<lambda>cat. length (classifier m) \<le> the (cat2id m cat))
     (filter (\<lambda>cat. cat2id m cat \<noteq> None) categories) = row_out_of_range m categories"
  by (induction categories) (auto simp: row_out_of_range_def)

lemma rows_of_categories:
  "collect (map (\<lambda>cat.
      (case py_dict (zip (filter (\<lambda>cat. cat2id m cat = None) categories)
                         (map f (filter (\<lambda>cat. cat2id m cat = None) categories))) cat of
         Some r \<Rightarrow> Inr r
       | None \<Rightarrow>
          (case py_dict (map (\<lambda>cat. (cat, classifier m ! the (cat2id m cat)))
                            (filter (\<lambda>cat. cat2id m cat \<noteq> None) categories)) cat of
             Some r \<Rightarrow> Inr r
           | None \<Rightarrow> Inl KeyError))) categories)
   = Inr (map (\<lambda>cat. case cat2id m cat of None \<Rightarrow> f cat | Some i \<Rightarrow> classifier m ! i) categories)"
proof -
  have "map (\<lambda>cat.
      (case py_dict (zip (filter (\<lambda>cat. cat2id m cat = None) categories)
                         (map f (filter (\<lambda>cat. cat2id m cat = None) categories))) cat of
         Some r \<Rightarrow> Inr r
       | None \<Rightarrow>
          (case py_dict (map (\<lambda>cat. (cat, classifier m ! the (cat2id m cat)))
                            (filter (\<lambda>cat. cat2id m cat \<noteq> None) categories)) cat of
             Some r \<Rightarrow> Inr r
           | None \<Rightarrow> Inl KeyError))) categories
    = map (\<lambda>cat. Inr (case cat2id m cat of None \<Rightarrow> f cat | Some i \<Rightarrow> classifier m ! i)) categories"
    by (rule map_cong [OF refl]) (auto simp: py_dict_zip_map py_dict_map_pair split: option.splits)
  then show ?thesis by (simp only: collect_map_Inr)
qed

lemma infer_cached:
  "inference_classifier m = Some c \<Longrightarrow>
   infer E m x categories template True = (m, Inr (scaled_similarity E x c))"
  by (simp add: infer_def)

lemma infer_uncached:
  "inference_classifier m = None \<Longrightarrow>
   infer E m x categories template compute_classifier_once =
     (if row_out_of_range m categories then
        (m\<lparr>text_calls := text_calls m @ [(template, filter (\<lambda>cat. cat2id m cat = None) categories)]\<rparr>,
         Inl IndexError)
      else if categories = [] then
        (m\<lparr>text_calls := text_calls m @ [(template, [])]\<rparr>, Inl RuntimeError)
      else
        (m\<lparr>text_calls := text_calls m @ [(template, filter (\<lambda>cat. cat2id m cat = None) categories)],
           inference_classifier := Some (assembled_classifier E m categories template)\<rparr>,
         Inr (scaled_similarity E x (assembled_classifier E m categories template))))"
  unfolding infer_def Let_def known_out_of_range rows_of_categories assembled_classifier_def
  by auto

lemma eval_loop_cached:
  "inference_classifier m = Some c \<Longrightarrow>
   eval_loop E template classnames bs m acc tot = (m, Inr (accuracy_sums E c bs acc tot))"
  by (induction bs arbitrary: acc tot) (auto simp: infer_cached)

lemma cache_irrelevant:
  "assembled_classifier E (m\<lparr>inference_classifier := c\<rparr>) categories template =
     assembled_classifier E m categories template"
  "row_out_of_range (m\<lparr>inference_classifier := c\<rparr>) categories = row_out_of_range m categories"
  by (simp_all add: assembled_classifier_def row_out_of_range_def cong: option.case_cong)

lemma pets_classifier_fields:
  "classifier pets_classifier = [''unit a {}:cat'', ''unit a {}:dog'']"
  "cat2id pets_classifier ''cat'' = Some 0"
  "cat2id pets_classifier ''dog'' = Some 1"
  "cat2id pets_classifier ''fox'' = None"
  "inference_classifier pets_classifier = None"
  "text_calls pets_classifier = [(''a {}'', [''cat'', ''dog''])]"
  by (simp_all add: pets_classifier_def init_classifier_def symbolic_externals_def py_dict_def
        upt_rec)

section \<open>Facts about the row normalisation\<close>

lemma sum_squares_nonneg: "0 \<le> sum_list (map (\<lambda>a. a * a) v)" for v :: "real list"
  by (induction v) simp_all

lemma l2_norm_nonneg: "0 \<le> l2_norm v"
  by (simp add: l2_norm_def sum_squares_nonneg)






lemma l2_norm_Nil [simp]: "l2_norm [] = 0"
  by (simp add: l2_norm_def)







lemma exact_arith_fields [simp]:
  "normalize_rows (exact_arith E) = map normalize_row"
  "scaled_similarity (exact_arith E) = scaled_similarity E"
  "encode_text (exact_arith E) = encode_text E"
  by (simp_all add: exact_arith_def)




section \<open>Facts about the two stages\<close>

lemmas stage_defs =
  run_twostage_training_def after_epoch_def productive_def

lemma second_stage_eq_first_stage:
  "second_stage dbg T ps st = first_stage dbg T ps st"
proof (induction ps arbitrary: st dbg)
  case Nil
  then show ?case by simp
next
  case (Cons p ps)
  show ?case
    by (simp add: train_epoch_second_stage_def twostage_train_epoch_def Cons.IH
          cong: sum.case_cong if_cong)
qed

lemma twostage_loop_T_max:
  "T_max (scheduler (twostage_loop T bs s)) = T_max (scheduler s)"
  by (induction bs arbitrary: s)
     (simp_all add: Let_def twostage_batch_scheduler scheduler_step_def)

lemma twostage_batch_tot:
  "tot_samples (twostage_batch b s) = tot_samples s + batch_size b"
  by (simp add: twostage_batch_def accumulate_def Let_def)

lemma twostage_loop_tot_mono:
  "tot_samples s \<le> tot_samples (twostage_loop T bs s)"
proof (induction bs arbitrary: s)
  case Nil
  then show ?case by simp
next
  case (Cons b bs)
  have "tot_samples s \<le> tot_samples (twostage_batch b s)"
    by (simp add: twostage_batch_tot)
  then show ?case
    using Cons.IH [of "twostage_batch b s"] by (auto simp: Let_def intro: order_trans)
qed

lemma twostage_loop_tot_pos:
  assumes "list_all (\<lambda>b. 0 < batch_size b) bs" "bs \<noteq> []"
  shows "0 < tot_samples (twostage_loop T bs s)"
proof -
  obtain b bs' where bs: "bs = b # bs'" using assms(2) by (cases bs) auto
  have "0 < tot_samples (twostage_batch b s)"
    using assms(1) bs by (simp add: twostage_batch_tot)
  then show ?thesis
    using twostage_loop_tot_mono [of "twostage_batch b s" T bs'] bs by (auto simp: Let_def)
qed

lemma steps_taken_pos: "list_ex (\<lambda>b. \<not> skip_lr_sched b) bs \<Longrightarrow> 0 < steps_taken bs"
  by (induction bs) (auto simp: steps_taken_Cons)

lemma productive_epoch:
  assumes "productive p" "c < T"
  shows "\<exists>s l. twostage_train_epoch sch p c T = Inr (s, l)
           \<and> c < count_iters s \<and> count_iters s \<le> T
           \<and> T_max (scheduler s) = T_max sch"
proof -
  let ?s = "twostage_loop T p (enter_epoch sch c)"
  have ne: "p \<noteq> []" using assms(1) by (auto simp: productive_def)
  have tot: "0 < tot_samples ?s"
    using assms(1) ne by (simp add: productive_def twostage_loop_tot_pos)
  have cnt: "count_iters ?s = min (c + int (steps_taken p)) T"
    using assms(2) by (simp add: twostage_loop_count)
  have "0 < steps_taken p" using assms(1) by (simp add: productive_def steps_taken_pos)
  then have lt: "c < count_iters ?s" and le: "count_iters ?s \<le> T"
    using cnt assms(2) by auto
  have tm: "T_max (scheduler ?s) = T_max sch"
    by (simp add: twostage_loop_T_max enter_epoch_def)
  show ?thesis
    using tot lt le tm
    by (simp add: twostage_train_epoch_def print_after_epoch_def Let_def)
qed

lemma epoch_returns_within:
  assumes "twostage_train_epoch sch p c T = Inr r" "c < T"
  shows "count_iters (fst r) \<le> T \<and> T_max (scheduler (fst r)) = T_max sch"
proof -
  obtain s l where r: "r = (s, l)" by (cases r)
  let ?s = "twostage_loop T p (enter_epoch sch c)"
  have p: "print_after_epoch T ?s = Inr (s, l)"
    using assms(1) r by (simp add: twostage_train_epoch_def)
  have "count_iters s = count_iters ?s" "scheduler s = scheduler ?s"
    using p by (simp_all add: print_after_epoch_count print_after_epoch_scheduler)
  moreover have "count_iters ?s \<le> T"
    using assms(2) by (simp add: twostage_loop_le)
  moreover have "T_max (scheduler ?s) = T_max sch"
    by (simp add: twostage_loop_T_max enter_epoch_def)
  ultimately show ?thesis using r by simp
qed

lemma first_stage_ends_at:
  "first_stage False T ps st = Returned (st', rest) \<Longrightarrow>
   stage_count st' = max (stage_count st) T
   \<and> T_max (stage_scheduler st') = T_max (stage_scheduler st)"
proof (induction ps arbitrary: st)
  case Nil
  then show ?case by (auto split: if_splits)
next
  case (Cons p ps)
  show ?case
  proof (cases "stage_count st < T")
    case False
    then show ?thesis using Cons.prems by auto
  next
    case True
    then obtain r where r: "twostage_train_epoch (stage_scheduler st) p (stage_count st) T = Inr r"
      and rec: "first_stage False T ps (after_epoch st r) = Returned (st', rest)"
      using Cons.prems(1) by (auto split: sum.splits)
    have w: "count_iters (fst r) \<le> T \<and> T_max (scheduler (fst r)) = T_max (stage_scheduler st)"
      by (rule epoch_returns_within [OF r True])
    have "stage_count (after_epoch st r) \<le> T"
      "T_max (stage_scheduler (after_epoch st r)) = T_max (stage_scheduler st)"
      using w by (simp_all add: after_epoch_def)
    then show ?thesis using Cons.IH [OF rec] True by simp
  qed
qed

lemma first_stage_finishes:
  "list_all productive ps \<Longrightarrow> T - stage_count st \<le> int (length ps) \<Longrightarrow>
   \<exists>st' rest. first_stage False T ps st = Returned (st', rest) \<and> list_all productive rest
      \<and> int (length ps) - int (length rest) \<le> max 0 (T - stage_count st)"
proof (induction ps arbitrary: st)
  case Nil
  then show ?case by auto
next
  case (Cons p ps)
  show ?case
  proof (cases "stage_count st < T")
    case False
    then show ?thesis using Cons.prems by auto
  next
    case True
    have prod: "productive p" and prods: "list_all productive ps" using Cons.prems(1) by simp_all
    obtain s l where r: "twostage_train_epoch (stage_scheduler st) p (stage_count st) T = Inr (s, l)"
      and lt: "stage_count st < count_iters s" and le: "count_iters s \<le> T"
      using productive_epoch [OF prod True, of "stage_scheduler st"] by blast
    let ?st = "after_epoch st (s, l)"
    have c: "stage_count ?st = count_iters s" by (simp add: after_epoch_def)
    have "T - stage_count ?st \<le> int (length ps)"
      using Cons.prems(2) lt c by simp
    then obtain st' rest where ret: "first_stage False T ps ?st = Returned (st', rest)"
      and pr: "list_all productive rest"
      and used: "int (length ps) - int (length rest) \<le> max 0 (T - stage_count ?st)"
      using Cons.IH [OF prods, of ?st] by auto
    have "first_stage False T (p # ps) st = Returned (st', rest)"
      using True r ret by simp
    moreover have "int (length (p # ps)) - int (length rest) \<le> max 0 (T - stage_count st)"
      using used lt le c by simp
    ultimately show ?thesis using pr by blast
  qed
qed

section \<open>Facts about the float product\<close>

lemma round_half_even_of_int [simp]: "round_half_even (real_of_int k) = k"
  by (simp add: round_half_even_def)

lemma binade_exponent:
  assumes lo: "2 ^ n \<le> \<bar>x\<bar>" and hi: "\<bar>x\<bar> < 2 ^ Suc n"
  shows "\<lfloor>log 2 \<bar>x\<bar>\<rfloor> = int n"
proof -
  have "(0::real) < 2 ^ n" by simp
  then have pos: "0 < \<bar>x\<bar>" using lo by linarith
  have a: "2 powr real_of_int (int n) \<le> \<bar>x\<bar>"
    using lo by (simp add: powr_realpow)
  have "2 powr real_of_int (int n + 1) = (2::real) ^ Suc n"
    by (simp add: powr_add powr_realpow)
  then have b: "\<bar>x\<bar> < 2 powr real_of_int (int n + 1)"
    using hi by simp
  show ?thesis
    using floor_log_eq_powr_iff [of "\<bar>x\<bar>" 2 "int n"] pos a b by simp
qed


lemma ulp_below:
  assumes n: "n \<le> 52"
  shows "2 powr real_of_int (int n - 52) = 1 / 2 ^ (52 - n)"
proof -
  have "real_of_int (int n - 52) = - real (52 - n)" using n by simp
  then have "2 powr real_of_int (int n - 52) = 2 powr (- real (52 - n))" by (simp only:)
  also have "\<dots> = 1 / (2 powr real (52 - n))" by (rule powr_minus_divide)
  also have "2 powr real (52 - n) = (2::real) ^ (52 - n)" by (rule powr_realpow) simp
  finally show ?thesis .
qed


lemma double_round_nonzero:
  "x \<noteq> 0 \<Longrightarrow> double_round x =
     2 powr real_of_int (max \<lfloor>log 2 \<bar>x\<bar>\<rfloor> (- 1022) - 52) *
     real_of_int (round_half_even (x / 2 powr real_of_int (max \<lfloor>log 2 \<bar>x\<bar>\<rfloor> (- 1022) - 52)))"
  unfolding double_round_def Let_def by (rule if_not_P)

lemma double_round_binade:
  assumes lo: "2 ^ n \<le> \<bar>x\<bar>" and hi: "\<bar>x\<bar> < 2 ^ Suc n" and n: "n \<le> 52"
  shows "double_round x = real_of_int (round_half_even (x * 2 ^ (52 - n))) / 2 ^ (52 - n)"
proof -
  have "(0::real) < 2 ^ n" by simp
  then have "0 < \<bar>x\<bar>" using lo by linarith
  then have x0: "x \<noteq> 0" by simp
  have e: "\<lfloor>log 2 \<bar>x\<bar>\<rfloor> = int n" by (rule binade_exponent [OF lo hi])
  have m: "max (int n) (- 1022) = int n" by simp
  have "double_round x =
      2 powr real_of_int (int n - 52) *
      real_of_int (round_half_even (x / 2 powr real_of_int (int n - 52)))"
    using double_round_nonzero [OF x0] unfolding e m .
  also have "\<dots> = (1 / 2 ^ (52 - n)) * real_of_int (round_half_even (x / (1 / 2 ^ (52 - n))))"
    unfolding ulp_below [OF n] ..
  also have "x / (1 / 2 ^ (52 - n)) = x * 2 ^ (52 - n)" by simp
  finally show ?thesis by (simp only: times_divide_eq_left mult_1)
qed


lemma round_half_even_numeral [simp]:
  "round_half_even (numeral k) = numeral k"
  "round_half_even (- numeral k) = - numeral k"
  using round_half_even_of_int [of "numeral k"] round_half_even_of_int [of "- numeral k"]
  by simp_all

lemma double_round_examples:
  "double_round 10 = 10" "double_round 5 = 5" "double_round 4 = 4" "double_round 2 = 2"
  "double_round 3 = 3" "double_round (- (3 / 2)) = - (3 / 2)"
proof -
  have "double_round 10 = real_of_int (round_half_even (10 * 2 ^ (52 - 3))) / 2 ^ (52 - 3)"
    by (rule double_round_binade) simp_all
  then show "double_round 10 = 10" by simp
  have "double_round 5 = real_of_int (round_half_even (5 * 2 ^ (52 - 2))) / 2 ^ (52 - 2)"
    by (rule double_round_binade) simp_all
  then show "double_round 5 = 5" by simp
  have "double_round 4 = real_of_int (round_half_even (4 * 2 ^ (52 - 2))) / 2 ^ (52 - 2)"
    by (rule double_round_binade) simp_all
  then show "double_round 4 = 4" by simp
  have "double_round 2 = real_of_int (round_half_even (2 * 2 ^ (52 - 1))) / 2 ^ (52 - 1)"
    by (rule double_round_binade) simp_all
  then show "double_round 2 = 2" by simp
  have "double_round 3 = real_of_int (round_half_even (3 * 2 ^ (52 - 1))) / 2 ^ (52 - 1)"
    by (rule double_round_binade) simp_all
  then show "double_round 3 = 3" by simp
  have "double_round (- (3 / 2)) =
      real_of_int (round_half_even (- (3 / 2) * 2 ^ (52 - 0))) / 2 ^ (52 - 0)"
    by (rule double_round_binade) simp_all
  then show "double_round (- (3 / 2)) = - (3 / 2)" by simp
qed

text \<open>0.7 as a float is 3152519739159347 / 2^52.\<close>

lemma tie_rounds_to_even: "round_half_even (15762598695796735 / 2) = 7881299347898368"
  by (simp add: round_half_even_def)

lemma double_round_ten_times_07:
  "double_round (10 * (3152519739159347 / 4503599627370496)) = 7"
proof -
  have "double_round (10 * (3152519739159347 / 4503599627370496)) =
      real_of_int (round_half_even (10 * (3152519739159347 / 4503599627370496) * 2 ^ (52 - 2)))
        / 2 ^ (52 - 2)"
    by (rule double_round_binade) simp_all
  also have "10 * (3152519739159347 / 4503599627370496) * 2 ^ (52 - 2) = (15762598695796735 / 2 :: real)"
    by simp
  finally show ?thesis by (simp add: tie_rounds_to_even)
qed

lemma cosine_budget_of_rounded:
  assumes "double_round (real_of_int total_iters) = t" "\<bar>t\<bar> < 2 ^ 1024"
    and "double_round (t * fraction) = p" "\<bar>p\<bar> < 2 ^ 1024"
  shows "cosine_budget total_iters fraction = Inr (py_int p)"
  using assms by (simp add: cosine_budget_def Let_def not_le [symmetric])

lemma small_is_finite: "\<bar>x\<bar> \<le> 10 \<Longrightarrow> \<bar>x\<bar> < (2::real) ^ 1024"
proof -
  assume "\<bar>x\<bar> \<le> 10"
  moreover have "(10::real) < 2 ^ 4" by simp
  moreover have "(2::real) ^ 4 \<le> 2 ^ 1024" by (rule power_increasing) simp_all
  ultimately show ?thesis by linarith
qed

lemma double_round_1: "double_round 1 = 1"
proof -
  have "double_round 1 = real_of_int (round_half_even (1 * 2 ^ (52 - 0))) / 2 ^ (52 - 0)"
    by (rule double_round_binade) simp_all
  then show ?thesis by simp
qed

lemma cosine_budget_examples:
  "cosine_budget 2 (1 / 2) = Inr 1"
  "cosine_budget 10 (1 / 2) = Inr 5"
  "cosine_budget 4 (1 / 2) = Inr 2"
  "cosine_budget 2 (3 / 2) = Inr 3"
  "cosine_budget 3 (- (1 / 2)) = Inr (- 1)"
  "cosine_budget 10 (3152519739159347 / 4503599627370496) = Inr 7"
proof -
  have "cosine_budget 2 (1 / 2) = Inr (py_int 1)"
    by (rule cosine_budget_of_rounded [where t = 2])
       (simp_all add: double_round_examples double_round_1 small_is_finite)
  then show "cosine_budget 2 (1 / 2) = Inr 1" by (simp add: py_int_def)
  have "cosine_budget 10 (1 / 2) = Inr (py_int 5)"
    by (rule cosine_budget_of_rounded [where t = 10])
       (simp_all add: double_round_examples small_is_finite)
  then show "cosine_budget 10 (1 / 2) = Inr 5" by (simp add: py_int_def)
  have "cosine_budget 4 (1 / 2) = Inr (py_int 2)"
    by (rule cosine_budget_of_rounded [where t = 4])
       (simp_all add: double_round_examples small_is_finite)
  then show "cosine_budget 4 (1 / 2) = Inr 2" by (simp add: py_int_def)
  have "cosine_budget 2 (3 / 2) = Inr (py_int 3)"
    by (rule cosine_budget_of_rounded [where t = 2])
       (simp_all add: double_round_examples small_is_finite)
  then show "cosine_budget 2 (3 / 2) = Inr 3" by (simp add: py_int_def)
  have "cosine_budget 3 (- (1 / 2)) = Inr (py_int (- (3 / 2)))"
    by (rule cosine_budget_of_rounded [where t = 3])
       (simp_all add: double_round_examples small_is_finite)
  then show "cosine_budget 3 (- (1 / 2)) = Inr (- 1)" by (simp add: py_int_def)
  have "cosine_budget 10 (3152519739159347 / 4503599627370496) = Inr (py_int 7)"
    by (rule cosine_budget_of_rounded [where t = 10])
       (simp_all only: of_int_numeral double_round_examples double_round_ten_times_07,
        simp_all add: small_is_finite)
  then show "cosine_budget 10 (3152519739159347 / 4503599627370496) = Inr 7"
    by (simp add: py_int_def)
qed

section \<open>The iteration budget\<close>

text \<open>
  Claim C1. For each of the three epoch functions (\<open>train_epoch\<close> of fs/ln\_only.py,
  \<open>train_epoch\<close> of fs/twostage.py and \<open>train_epoch_second_stage\<close>), called with a
  counter strictly below the budget: the call either raises the \<open>ZeroDivisionError\<close>
  of the averaging or returns a counter that does not exceed the budget; and when the
  returned counter equals the budget, the loop has stopped in the batch that reached it,
  so that whatever batches \<open>rest\<close> follow in the loader, the call returns the same state
  and prints the same line as if the loader had ended there.
\<close>

theorem epoch_counter_within_budget:
  assumes "count < total_iters"
  shows "(case ln_only_train_epoch sch bs count total_iters of
            Inl e \<Rightarrow> e = ZeroDivisionError
          | Inr (s, l) \<Rightarrow> count_iters s \<le> total_iters \<and>
              (count_iters s = total_iters \<longrightarrow>
                 ln_only_train_epoch sch (bs @ rest) count total_iters =
                 ln_only_train_epoch sch bs count total_iters))
       \<and> (case twostage_train_epoch sch bs count total_iters of
            Inl e \<Rightarrow> e = ZeroDivisionError
          | Inr (s, l) \<Rightarrow> count_iters s \<le> total_iters \<and>
              (count_iters s = total_iters \<longrightarrow>
                 twostage_train_epoch sch (bs @ rest) count total_iters =
                 twostage_train_epoch sch bs count total_iters))
       \<and> (case train_epoch_second_stage sch bs count total_iters of
            Inl e \<Rightarrow> e = ZeroDivisionError
          | Inr (s, l) \<Rightarrow> count_iters s \<le> total_iters \<and>
              (count_iters s = total_iters \<longrightarrow>
                 train_epoch_second_stage sch (bs @ rest) count total_iters =
                 train_epoch_second_stage sch bs count total_iters))"
proof -
  let ?s0 = "enter_epoch sch count"
  have s0: "count_iters ?s0 < total_iters" using assms by simp
  have ln: "case print_after_epoch total_iters (ln_only_loop total_iters bs ?s0) of
           Inl e \<Rightarrow> e = ZeroDivisionError
         | Inr (s', l) \<Rightarrow> count_iters s' \<le> total_iters \<and>
             (count_iters s' = total_iters \<longrightarrow>
                print_after_epoch total_iters (ln_only_loop total_iters (bs @ rest) ?s0) =
                print_after_epoch total_iters (ln_only_loop total_iters bs ?s0))"
    by (rule print_after_epoch_budget [OF ln_only_loop_le [OF s0] ln_only_loop_break [OF s0]])
  have two: "case print_after_epoch total_iters (twostage_loop total_iters bs ?s0) of
           Inl e \<Rightarrow> e = ZeroDivisionError
         | Inr (s', l) \<Rightarrow> count_iters s' \<le> total_iters \<and>
             (count_iters s' = total_iters \<longrightarrow>
                print_after_epoch total_iters (twostage_loop total_iters (bs @ rest) ?s0) =
                print_after_epoch total_iters (twostage_loop total_iters bs ?s0))"
    by (rule print_after_epoch_budget [OF twostage_loop_le [OF s0] twostage_loop_break [OF s0]])
  show ?thesis
    using ln two
    by (simp only: ln_only_train_epoch_def twostage_train_epoch_def train_epoch_second_stage_def)
qed

theorem epoch_counter_within_budget_witness:
  "(0::int) < 1
   \<and> ln_only_train_epoch (fresh_scheduler 1) ([overflow_batch] @ [recovered_batch]) 0 1
     = ln_only_train_epoch (fresh_scheduler 1) [overflow_batch] 0 1
   \<and> returned_count (ln_only_train_epoch (fresh_scheduler 1) [overflow_batch] 0 1) = Some 1
   \<and> twostage_train_epoch (fresh_scheduler 1) ([stepped_batch] @ [stepped_batch, growth_batch]) 0 1
     = twostage_train_epoch (fresh_scheduler 1) [stepped_batch] 0 1
   \<and> returned_count (twostage_train_epoch (fresh_scheduler 1) [stepped_batch] 0 1) = Some 1
   \<and> train_epoch_second_stage (fresh_scheduler 1) ([stepped_batch] @ [stepped_batch, growth_batch]) 0 1
     = train_epoch_second_stage (fresh_scheduler 1) [stepped_batch] 0 1
   \<and> returned_count (train_epoch_second_stage (fresh_scheduler 1) [stepped_batch] 0 1) = Some 1"
  using epoch_counter_within_budget [of 0 1 "fresh_scheduler 1" "[overflow_batch]" "[recovered_batch]"]
        epoch_counter_within_budget [of 0 1 "fresh_scheduler 1" "[stepped_batch]"
          "[stepped_batch, growth_batch]"]
  by (simp add: epoch_defs example_defs)

section \<open>Unconditional and gated increments\<close>

text \<open>
  Claim C2, as amended. In the single-stage loop body the counter is incremented and the
  scheduler stepped in every batch; in the loop body of the two-stage epoch functions both
  happen only in a batch where the scaler did not skip the step. For the same scheduler,
  loader, counter (below the budget) and budget, the counter returned by a two-stage epoch
  function never exceeds the one returned by the single-stage function, and the two
  differ exactly when the scaler skipped a step in some batch of the loader and the
  two-stage pass ended below the budget.
\<close>

theorem single_stage_and_two_stage_counters:
  assumes "count < total_iters"
  shows "count_iters (ln_only_batch b s) = count_iters s + 1
       \<and> scheduler (ln_only_batch b s) = scheduler_step (scheduler s)
       \<and> count_iters (twostage_batch b s) =
           (if skip_lr_sched b then count_iters s else count_iters s + 1)
       \<and> scheduler (twostage_batch b s) =
           (if skip_lr_sched b then scheduler s else scheduler_step (scheduler s))
       \<and> (\<forall>n1 n2.
            returned_count (ln_only_train_epoch sch bs count total_iters) = Some n1 \<and>
            (returned_count (twostage_train_epoch sch bs count total_iters) = Some n2 \<or>
             returned_count (train_epoch_second_stage sch bs count total_iters) = Some n2) \<longrightarrow>
            n2 \<le> n1 \<and> (n1 \<noteq> n2 \<longleftrightarrow> list_ex skip_lr_sched bs \<and> n2 < total_iters))"
proof -
  let ?s0 = "enter_epoch sch count"
  have s0: "count_iters ?s0 < total_iters" using assms by simp
  have body: "count_iters (ln_only_batch b s) = count_iters s + 1
       \<and> scheduler (ln_only_batch b s) = scheduler_step (scheduler s)
       \<and> count_iters (twostage_batch b s) =
           (if skip_lr_sched b then count_iters s else count_iters s + 1)
       \<and> scheduler (twostage_batch b s) =
           (if skip_lr_sched b then scheduler s else scheduler_step (scheduler s))"
    by (simp add: ln_only_batch_def twostage_batch_def accumulate_def Let_def)
  have epochs: "n2 \<le> n1 \<and> (n1 \<noteq> n2 \<longleftrightarrow> list_ex skip_lr_sched bs \<and> n2 < total_iters)"
    if n1: "returned_count (ln_only_train_epoch sch bs count total_iters) = Some n1"
    and n2: "returned_count (twostage_train_epoch sch bs count total_iters) = Some n2 \<or>
             returned_count (train_epoch_second_stage sch bs count total_iters) = Some n2"
    for n1 n2
  proof -
    have e1: "n1 = min (count + int (length bs)) total_iters"
      using returned_count_print [OF n1 [unfolded ln_only_train_epoch_def]]
            ln_only_loop_count [OF s0, of bs] by simp
    have "returned_count (print_after_epoch total_iters (twostage_loop total_iters bs ?s0)) = Some n2"
      using n2 by (simp add: twostage_train_epoch_def train_epoch_second_stage_def)
    then have e2: "n2 = min (count + int (steps_taken bs)) total_iters"
      using returned_count_print twostage_loop_count [OF s0, of bs] by simp
    show ?thesis
      unfolding e1 e2
      using counters_compared [OF assms steps_taken_le [of bs]] steps_taken_less [of bs]
      by simp
  qed
  show ?thesis using body epochs by blast
qed

text \<open>
  The claim as it is written (any run with a skipped step returns different counters)
  fails when the budget cuts the passes: with a budget of 2 and a loader whose first batch
  overflows, the single-stage function stops after two batches and the two-stage functions
  after three, and all of them return 2.
\<close>

theorem equal_counters_despite_a_skip:
  "list_ex skip_lr_sched [overflow_batch, recovered_batch, recovered_batch]
   \<and> returned_count (ln_only_train_epoch (fresh_scheduler 2)
        [overflow_batch, recovered_batch, recovered_batch] 0 2) = Some 2
   \<and> returned_count (twostage_train_epoch (fresh_scheduler 2)
        [overflow_batch, recovered_batch, recovered_batch] 0 2) = Some 2
   \<and> returned_count (train_epoch_second_stage (fresh_scheduler 2)
        [overflow_batch, recovered_batch, recovered_batch] 0 2) = Some 2"
  by (simp add: epoch_defs example_defs)

theorem single_stage_and_two_stage_counters_witness:
  "(0::int) < 5
   \<and> returned_count (ln_only_train_epoch (fresh_scheduler 5)
        [overflow_batch, recovered_batch] 0 5) = Some 2
   \<and> returned_count (twostage_train_epoch (fresh_scheduler 5)
        [overflow_batch, recovered_batch] 0 5) = Some 1
   \<and> (1::int) \<le> 2
   \<and> list_ex skip_lr_sched [overflow_batch, recovered_batch]"
  using single_stage_and_two_stage_counters [of 0 5 overflow_batch "enter_epoch (fresh_scheduler 5) 0"
      "fresh_scheduler 5" "[overflow_batch, recovered_batch]"]
  by (simp add: epoch_defs example_defs)

section \<open>Detection of a skipped step\<close>

text \<open>
  Claim C3, as amended. In both two-stage epoch functions the step counts as skipped when
  the scale read before \<open>scaler.update()\<close> exceeds the scale read after it, that is when
  the update lowered the scale; only in a batch that is not skipped is the scheduler
  stepped and the counter incremented. Hence an epoch call that returns has advanced the
  scheduler exactly as often as the counter, and from a counter below the budget the
  returned counter is the incoming one plus the number of batches whose scale did not
  drop, capped at the budget.
\<close>

theorem skip_detected_by_scale_drop:
  "(skip_lr_sched b \<longleftrightarrow> scale_after b < scale_before b)
   \<and> count_iters (twostage_batch b s) =
       (if scale_after b < scale_before b then count_iters s else count_iters s + 1)
   \<and> scheduler (twostage_batch b s) =
       (if scale_after b < scale_before b then scheduler s else scheduler_step (scheduler s))
   \<and> (\<forall>s' l. twostage_train_epoch sch bs c T = Inr (s', l) \<or>
              train_epoch_second_stage sch bs c T = Inr (s', l) \<longrightarrow>
         last_epoch (scheduler s') - last_epoch sch = count_iters s' - c
         \<and> (c < T \<longrightarrow>
              count_iters s' =
                min (c + int (length (filter (\<lambda>b. scale_before b \<le> scale_after b) bs))) T))"
proof -
  have body: "(skip_lr_sched b \<longleftrightarrow> scale_after b < scale_before b)
   \<and> count_iters (twostage_batch b s) =
       (if scale_after b < scale_before b then count_iters s else count_iters s + 1)
   \<and> scheduler (twostage_batch b s) =
       (if scale_after b < scale_before b then scheduler s else scheduler_step (scheduler s))"
    by (simp add: twostage_batch_scheduler twostage_batch_count) (simp add: skip_lr_sched_def)
  show ?thesis
    using body gated_epoch [of T bs sch c]
    by (simp add: twostage_train_epoch_def train_epoch_second_stage_def)
qed

theorem skip_detected_by_scale_drop_witness:
  "twostage_train_epoch (fresh_scheduler 5) [overflow_batch, recovered_batch, growth_batch] 0 5
     = Inr (\<lparr>count_iters = 2, scheduler = \<lparr>T_max = 5, last_epoch = 2\<rparr>,
             acc_train = 50, loss_epoch = 4 / 3, tot_samples = 12, batches_run = 3\<rparr>,
            Some \<lparr>log_count = 2, log_total = 5, log_lr_of = \<lparr>T_max = 5, last_epoch = 2\<rparr>,
                  log_acc = 50, log_loss = 4 / 3\<rparr>)
   \<and> (0::int) < 5
   \<and> (2::int) = min (0 + int (length (filter (\<lambda>b. scale_before b \<le> scale_after b)
                    [overflow_batch, recovered_batch, growth_batch]))) 5"
  using skip_detected_by_scale_drop [of overflow_batch "enter_epoch (fresh_scheduler 5) 0"
      "fresh_scheduler 5" "[overflow_batch, recovered_batch, growth_batch]" 0 5]
  by (simp add: epoch_defs example_defs)

text \<open>
  The claim as it is written takes the step for skipped when the later reading exceeds the
  earlier one. In a batch where the scale grows from 65536 to 131072 the code increments
  the counter, and in a batch where it drops from 65536 to 32768 the code does not.
\<close>

theorem growth_is_not_a_skip:
  "scale_before growth_batch < scale_after growth_batch
   \<and> returned_count (twostage_train_epoch (fresh_scheduler 5) [growth_batch] 0 5) = Some 1
   \<and> returned_count (train_epoch_second_stage (fresh_scheduler 5) [growth_batch] 0 5) = Some 1
   \<and> \<not> scale_before overflow_batch < scale_after overflow_batch
   \<and> returned_count (twostage_train_epoch (fresh_scheduler 5) [overflow_batch] 0 5) = Some 0
   \<and> returned_count (train_epoch_second_stage (fresh_scheduler 5) [overflow_batch] 0 5) = Some 0"
  by (simp add: epoch_defs example_defs)

section \<open>The line printed after an epoch\<close>

text \<open>
  Claim C6, as amended. An epoch call that returns has printed its line exactly when the
  counter it returns does not exceed the budget (the guard is \<open>count_iters <= total_iters\<close>),
  with the returned counter, the budget, the scheduler's current rate and the two
  averages; so a call entered with a counter below the budget prints the line whenever it
  returns, also when the pass ended because the counter reached the budget.
\<close>

theorem epoch_line_printed_up_to_budget:
  "(\<forall>s l. ln_only_train_epoch sch bs c T = Inr (s, l) \<or>
           twostage_train_epoch sch bs c T = Inr (s, l) \<or>
           train_epoch_second_stage sch bs c T = Inr (s, l) \<longrightarrow>
      l = (if count_iters s \<le> T
           then Some \<lparr>log_count = count_iters s, log_total = T, log_lr_of = scheduler s,
                      log_acc = acc_train s, log_loss = loss_epoch s\<rparr>
           else None)
      \<and> (c < T \<longrightarrow> l \<noteq> None))"
proof (intro allI impI)
  fix s l
  assume r: "ln_only_train_epoch sch bs c T = Inr (s, l) \<or>
           twostage_train_epoch sch bs c T = Inr (s, l) \<or>
           train_epoch_second_stage sch bs c T = Inr (s, l)"
  then obtain s0 where p: "print_after_epoch T s0 = Inr (s, l)"
    and le: "c < T \<Longrightarrow> count_iters s0 \<le> T"
    using ln_only_loop_le [of "enter_epoch sch c" T bs] twostage_loop_le [of "enter_epoch sch c" T bs]
    by (auto simp: ln_only_train_epoch_def twostage_train_epoch_def train_epoch_second_stage_def)
  have line: "l = (if count_iters s \<le> T
           then Some \<lparr>log_count = count_iters s, log_total = T, log_lr_of = scheduler s,
                      log_acc = acc_train s, log_loss = loss_epoch s\<rparr>
           else None)"
    by (rule print_after_epoch_line [OF p])
  have "c < T \<Longrightarrow> count_iters s \<le> T"
    using le print_after_epoch_count [OF p] by simp
  then show "l = (if count_iters s \<le> T
           then Some \<lparr>log_count = count_iters s, log_total = T, log_lr_of = scheduler s,
                      log_acc = acc_train s, log_loss = loss_epoch s\<rparr>
           else None)
      \<and> (c < T \<longrightarrow> l \<noteq> None)"
    using line by simp
qed

theorem epoch_line_printed_up_to_budget_witness:
  "ln_only_train_epoch (fresh_scheduler 1) [stepped_batch] 0 1
     = Inr (\<lparr>count_iters = 1, scheduler = \<lparr>T_max = 1, last_epoch = 1\<rparr>,
             acc_train = 50, loss_epoch = 1, tot_samples = 4, batches_run = 1\<rparr>,
            Some \<lparr>log_count = 1, log_total = 1, log_lr_of = \<lparr>T_max = 1, last_epoch = 1\<rparr>,
                  log_acc = 50, log_loss = 1\<rparr>)
   \<and> (0::int) < 1"
  using epoch_line_printed_up_to_budget [of "fresh_scheduler 1" "[stepped_batch]" 0 1]
  by (simp add: epoch_defs example_defs)

text \<open>
  The claim as it is written has no line for a pass that ended because the counter reached
  the budget. With a budget of 1 and two batches in the loader, each epoch function stops
  after the first batch, returns 1 and prints.
\<close>

theorem line_printed_when_budget_reached:
  "returned_count (ln_only_train_epoch (fresh_scheduler 1) [stepped_batch, stepped_batch] 0 1) = Some 1
   \<and> printed_line (ln_only_train_epoch (fresh_scheduler 1) [stepped_batch, stepped_batch] 0 1) \<noteq> None
   \<and> returned_count (twostage_train_epoch (fresh_scheduler 1) [stepped_batch, stepped_batch] 0 1) = Some 1
   \<and> printed_line (twostage_train_epoch (fresh_scheduler 1) [stepped_batch, stepped_batch] 0 1) \<noteq> None
   \<and> returned_count (train_epoch_second_stage (fresh_scheduler 1) [stepped_batch, stepped_batch] 0 1) = Some 1
   \<and> printed_line (train_epoch_second_stage (fresh_scheduler 1) [stepped_batch, stepped_batch] 0 1) \<noteq> None"
  by (simp add: epoch_defs example_defs)

section \<open>Averaging over an empty loader\<close>

text \<open>
  Claim C8, as amended. No averaging site guards its division. With a loader of zero
  batches the evaluator raises \<open>ZeroDivisionError\<close> from \<open>acc /= tot_samples\<close>, and each
  epoch function raises it from \<open>acc_train /= tot_samples\<close> whenever the counter does not
  exceed the budget; with a counter above the budget the epoch function skips the
  averaging and returns its inputs unchanged without printing.
\<close>

theorem empty_loader_division_unguarded:
  "snd (evaluate_selective_inference E model [] template classnames) = Inl ZeroDivisionError
   \<and> ln_only_train_epoch sch [] c T =
       (if c \<le> T then Inl ZeroDivisionError else Inr (enter_epoch sch c, None))
   \<and> twostage_train_epoch sch [] c T =
       (if c \<le> T then Inl ZeroDivisionError else Inr (enter_epoch sch c, None))
   \<and> train_epoch_second_stage sch [] c T =
       (if c \<le> T then Inl ZeroDivisionError else Inr (enter_epoch sch c, None))"
  by (simp add: evaluate_selective_inference_def ln_only_train_epoch_def twostage_train_epoch_def
        train_epoch_second_stage_def print_after_epoch_def enter_epoch_def)

text \<open>
  The claim as it is written has the empty loader surfaced as a condition of its own
  rather than the division performed; the outcome is the exception of the division.
\<close>

theorem empty_loader_raises_ZeroDivisionError:
  "snd (evaluate_selective_inference symbolic_externals pets_classifier [] ''a {}'' [''cat''])
     = Inl ZeroDivisionError
   \<and> ln_only_train_epoch (fresh_scheduler 5) [] 0 5 = Inl ZeroDivisionError
   \<and> twostage_train_epoch (fresh_scheduler 5) [] 0 5 = Inl ZeroDivisionError
   \<and> train_epoch_second_stage (fresh_scheduler 5) [] 0 5 = Inl ZeroDivisionError"
  by (simp add: evaluate_selective_inference_def epoch_defs)

section \<open>Inference with the cached classifier\<close>

text \<open>
  Claim C4. Every call of \<open>infer\<close> does one of two things. When the flag
  \<open>compute_classifier_once\<close> is set and the instance has the attribute
  \<open>inference_classifier\<close>, the instance is left as it is (the text encoder is not
  invoked, nothing is rebuilt) and the logits are computed against the cached matrix.
  Otherwise the text encoder is invoked once, on exactly the categories that the
  class-to-index mapping does not have, and the matrix is assembled row by row in the order
  of \<open>categories\<close>, from the trained matrix for a known category and from the encoder for
  any other, normalised, stored as the cache and used for the logits. The build has two
  ways to fail, both before anything is cached: an index beyond the trained matrix, and
  \<open>torch.stack\<close> on an empty list of categories; a missing key cannot occur.
\<close>

theorem infer_reuses_or_assembles:
  "infer E m x categories template compute_classifier_once =
     (if compute_classifier_once \<and> inference_classifier m \<noteq> None then
        (m, Inr (scaled_similarity E x (the (inference_classifier m))))
      else if row_out_of_range m categories then
        (m\<lparr>text_calls := text_calls m @ [(template, filter (\<lambda>cat. cat2id m cat = None) categories)]\<rparr>,
         Inl IndexError)
      else if categories = [] then
        (m\<lparr>text_calls := text_calls m @ [(template, [])]\<rparr>, Inl RuntimeError)
      else
        (m\<lparr>text_calls := text_calls m @ [(template, filter (\<lambda>cat. cat2id m cat = None) categories)],
           inference_classifier := Some (assembled_classifier E m categories template)\<rparr>,
         Inr (scaled_similarity E x (assembled_classifier E m categories template))))"
  unfolding infer_def Let_def known_out_of_range rows_of_categories assembled_classifier_def
  by auto


theorem infer_reuses_or_assembles_witness:
  "infer symbolic_externals (pets_classifier\<lparr>inference_classifier := Some [''cached'']\<rparr>) (2::nat)
     [''dog'', ''fox''] ''a {}'' True
   = (pets_classifier\<lparr>inference_classifier := Some [''cached'']\<rparr>, Inr (2, [''cached'']))
   \<and> snd (infer symbolic_externals pets_classifier (2::nat) [''fox'', ''dog'', ''cat''] ''a {}'' True)
   = Inr (2, [''unit a {}:fox'', ''unit unit a {}:dog'', ''unit unit a {}:cat''])
   \<and> text_calls (fst (infer symbolic_externals pets_classifier (2::nat) [''fox'', ''dog'', ''cat'']
        ''a {}'' True))
   = [(''a {}'', [''cat'', ''dog'']), (''a {}'', [''fox''])]"
  using infer_reuses_or_assembles [of symbolic_externals
          "pets_classifier\<lparr>inference_classifier := Some [''cached'']\<rparr>" 2 "[''dog'', ''fox'']" "''a {}''" True]
        infer_reuses_or_assembles [of symbolic_externals pets_classifier 2
          "[''fox'', ''dog'', ''cat'']" "''a {}''" True]
  by (simp add: row_out_of_range_def assembled_classifier_def pets_classifier_fields
        symbolic_externals_def)

section \<open>One classifier per evaluation\<close>

text \<open>
  Claim C5. Every call of \<open>evaluate_selective_inference\<close> removes the cached classifier
  first: on a loader without batches it does nothing else before the averaging raises, and
  the instance is left without a cache. On a loader with at least one batch it invokes the
  text encoder exactly once (the history gains one entry, for the class names absent from
  the mapping), in the first batch; the matrix assembled there is the cache the call leaves
  behind, and every batch of the loader is scored against it. On any loader, the result
  and the instance after the call do not depend on the cache the instance came with.
\<close>

theorem evaluation_builds_classifier_once:
  "evaluate_selective_inference E model loader template classnames =
     (if loader = [] then
        (model\<lparr>inference_classifier := None\<rparr>, Inl ZeroDivisionError)
      else if row_out_of_range model classnames then
        (model\<lparr>inference_classifier := None,
               text_calls := text_calls model @
                 [(template, filter (\<lambda>cat. cat2id model cat = None) classnames)]\<rparr>,
         Inl IndexError)
      else if classnames = [] then
        (model\<lparr>inference_classifier := None,
               text_calls := text_calls model @ [(template, [])]\<rparr>,
         Inl RuntimeError)
      else
        (model\<lparr>inference_classifier := Some (assembled_classifier E model classnames template),
               text_calls := text_calls model @
                 [(template, filter (\<lambda>cat. cat2id model cat = None) classnames)]\<rparr>,
         if snd (accuracy_sums E (assembled_classifier E model classnames template) loader 0 0) = 0
         then Inl ZeroDivisionError
         else Inr (fst (accuracy_sums E (assembled_classifier E model classnames template) loader 0 0)
                   / real (snd (accuracy_sums E (assembled_classifier E model classnames template)
                                  loader 0 0)))))
   \<and> evaluate_selective_inference E (model\<lparr>inference_classifier := stale\<rparr>) loader template classnames
     = evaluate_selective_inference E model loader template classnames"
proof -
  let ?m0 = "model\<lparr>inference_classifier := None\<rparr>"
  let ?c = "assembled_classifier E model classnames template"
  let ?rhs = "if row_out_of_range model classnames then
        (model\<lparr>inference_classifier := None,
               text_calls := text_calls model @
                 [(template, filter (\<lambda>cat. cat2id model cat = None) classnames)]\<rparr>,
         Inl IndexError)
      else if classnames = [] then
        (model\<lparr>inference_classifier := None,
               text_calls := text_calls model @ [(template, [])]\<rparr>,
         Inl RuntimeError)
      else
        (model\<lparr>inference_classifier := Some ?c,
               text_calls := text_calls model @
                 [(template, filter (\<lambda>cat. cat2id model cat = None) classnames)]\<rparr>,
         if snd (accuracy_sums E ?c loader 0 0) = 0
         then Inl ZeroDivisionError
         else Inr (fst (accuracy_sums E ?c loader 0 0) / real (snd (accuracy_sums E ?c loader 0 0))))"
  have empty: "evaluate_selective_inference E model [] template classnames =
      (?m0, Inl ZeroDivisionError)"
    by (simp add: evaluate_selective_inference_def)
  have nonempty: "evaluate_selective_inference E model loader template classnames = ?rhs"
    if ne: "loader \<noteq> []"
  proof -
    obtain images target bs where loader: "loader = (images, target) # bs"
      using ne by (cases loader) auto
    have first: "infer E ?m0 images classnames template True =
       (if row_out_of_range model classnames then
          (?m0\<lparr>text_calls := text_calls model @
                   [(template, filter (\<lambda>cat. cat2id model cat = None) classnames)]\<rparr>,
           Inl IndexError)
        else if classnames = [] then
          (?m0\<lparr>text_calls := text_calls model @ [(template, [])]\<rparr>, Inl RuntimeError)
        else
          (?m0\<lparr>text_calls := text_calls model @
                   [(template, filter (\<lambda>cat. cat2id model cat = None) classnames)],
               inference_classifier := Some ?c\<rparr>,
           Inr (scaled_similarity E images ?c)))"
      by (simp add: infer_uncached cache_irrelevant)
    show ?thesis
      unfolding evaluate_selective_inference_def Let_def loader eval_loop.simps first
      by (simp add: eval_loop_cached split: prod.splits)
  qed
  have "evaluate_selective_inference E (model\<lparr>inference_classifier := stale\<rparr>) loader template classnames
     = evaluate_selective_inference E model loader template classnames"
    by (simp add: evaluate_selective_inference_def)
  then show ?thesis using empty nonempty by (cases "loader = []") simp_all
qed

theorem evaluation_builds_classifier_once_witness:
  "snd (evaluate_selective_inference symbolic_externals
          (pets_classifier\<lparr>inference_classifier := Some [''stale'']\<rparr>)
          [(2, ()), (3, ())] ''a {}'' [''dog'', ''fox'']) = Inr 100
   \<and> inference_classifier (fst (evaluate_selective_inference symbolic_externals
          (pets_classifier\<lparr>inference_classifier := Some [''stale'']\<rparr>)
          [(2, ()), (3, ())] ''a {}'' [''dog'', ''fox''])) = Some [''unit unit a {}:dog'', ''unit a {}:fox'']
   \<and> text_calls (fst (evaluate_selective_inference symbolic_externals
          (pets_classifier\<lparr>inference_classifier := Some [''stale'']\<rparr>)
          [(2, ()), (3, ())] ''a {}'' [''dog'', ''fox''])) =
       [(''a {}'', [''cat'', ''dog'']), (''a {}'', [''fox''])]
   \<and> inference_classifier (fst (evaluate_selective_inference symbolic_externals
          (pets_classifier\<lparr>inference_classifier := Some [''stale'']\<rparr>)
          [] ''a {}'' [''dog'', ''fox''])) = None
   \<and> text_calls (fst (evaluate_selective_inference symbolic_externals
          (pets_classifier\<lparr>inference_classifier := Some [''stale'']\<rparr>)
          [] ''a {}'' [''dog'', ''fox''])) = [(''a {}'', [''cat'', ''dog''])]"
  using evaluation_builds_classifier_once [where E = symbolic_externals
      and model = "pets_classifier\<lparr>inference_classifier := Some [''stale'']\<rparr>"
      and loader = "[(2::nat, ()), (3, ())]" and template = "''a {}''"
      and classnames = "[''dog'', ''fox'']" and stale = None]
    evaluation_builds_classifier_once [where E = symbolic_externals
      and model = "pets_classifier\<lparr>inference_classifier := Some [''stale'']\<rparr>"
      and loader = "[]" and template = "''a {}''"
      and classnames = "[''dog'', ''fox'']" and stale = None]
  by (simp add: row_out_of_range_def assembled_classifier_def pets_classifier_fields
        symbolic_externals_def)

section \<open>Normalised class embeddings\<close>



section \<open>Logits and the length of the classifier rows\<close>



section \<open>The budgets of the two stages\<close>

text \<open>
  Claim C7, as amended. With the debug flag off, whenever the two training loops of
  \<open>run_twostage\<close> have returned: the horizon of the stage-1 scheduler is the budget
  \<open>int(total_iters * n_iters_frac)\<close>, where the total is the iteration multiplier times
  the number of shots and the product is the float product; the counter after stage 1 is
  that budget, or 0 when the budget is negative; the horizon of the stage-2 scheduler is
  the total minus the counter after stage 1; and the counter after stage 2 is the total,
  or the counter after stage 1 when that is larger. The loops do return when the budget
  does not overflow, every pass over the loader has samples in every batch and a step that
  the scaler does not skip, and the loader is passed over as often as the larger of the
  budget and the total.
\<close>

theorem stage_budgets_without_debug:
  assumes "\<not> debug a"
  shows "(\<forall>r. run_twostage_training a passes = Returned r \<longrightarrow>
            cosine_budget (n_iters a * shots a) (n_iters_frac a) =
              Inr (T_max (stage_scheduler (first_stage_end r)))
          \<and> stage_count (first_stage_end r) = max 0 (T_max (stage_scheduler (first_stage_end r)))
          \<and> T_max (stage_scheduler (second_stage_end r)) =
              n_iters a * shots a - stage_count (first_stage_end r)
          \<and> stage_count (second_stage_end r) =
              max (stage_count (first_stage_end r)) (n_iters a * shots a))
       \<and> (\<forall>c. cosine_budget (n_iters a * shots a) (n_iters_frac a) = Inr c
              \<and> list_all productive passes
              \<and> max c (n_iters a * shots a) \<le> int (length passes) \<longrightarrow>
            (\<exists>r. run_twostage_training a passes = Returned r))"
proof -
  let ?total = "n_iters a * shots a"
  let ?st0 = "\<lambda>c. \<lparr>stage_count = 0, stage_scheduler = \<lparr>T_max = c, last_epoch = 0\<rparr>,
               stage_printed = []\<rparr>"
  have dbg: "debug a = False" using assms by simp
  have run: "run_twostage_training a passes =
     (case cosine_budget ?total (n_iters_frac a) of
        Inl e \<Rightarrow> Raised e
      | Inr c \<Rightarrow>
         (case first_stage False c passes (?st0 c) of
            Raised e \<Rightarrow> Raised e
          | Still_running \<Rightarrow> Still_running
          | Returned (st1, rest) \<Rightarrow>
              (case first_stage False ?total rest
                      (st1\<lparr>stage_scheduler := \<lparr>T_max = ?total - stage_count st1, last_epoch = 0\<rparr>\<rparr>) of
                 Raised e \<Rightarrow> Raised e
               | Still_running \<Rightarrow> Still_running
               | Returned (st2, u) \<Rightarrow> Returned \<lparr>first_stage_end = st1, second_stage_end = st2\<rparr>)))"
    unfolding run_twostage_training_def Let_def second_stage_eq_first_stage dbg
    by (rule refl)
  have safe: "cosine_budget ?total (n_iters_frac a) = Inr (T_max (stage_scheduler (first_stage_end r)))
          \<and> stage_count (first_stage_end r) = max 0 (T_max (stage_scheduler (first_stage_end r)))
          \<and> T_max (stage_scheduler (second_stage_end r)) = ?total - stage_count (first_stage_end r)
          \<and> stage_count (second_stage_end r) = max (stage_count (first_stage_end r)) ?total"
    if ret: "run_twostage_training a passes = Returned r" for r
  proof -
    obtain c st1 rest st2 u where
      c: "cosine_budget ?total (n_iters_frac a) = Inr c" and
      s1: "first_stage False c passes (?st0 c) = Returned (st1, rest)" and
      s2: "first_stage False ?total rest
             (st1\<lparr>stage_scheduler := \<lparr>T_max = ?total - stage_count st1, last_epoch = 0\<rparr>\<rparr>)
           = Returned (st2, u)" and
      r: "r = \<lparr>first_stage_end = st1, second_stage_end = st2\<rparr>"
      using ret unfolding run by (auto split: sum.splits outcome.splits prod.splits)
    have e1: "stage_count st1 = max 0 c \<and> T_max (stage_scheduler st1) = c"
      using first_stage_ends_at [OF s1] by simp
    have e2: "stage_count st2 = max (stage_count st1) ?total
            \<and> T_max (stage_scheduler st2) = ?total - stage_count st1"
      using first_stage_ends_at [OF s2] by simp
    show ?thesis using c e1 e2 r by simp
  qed
  have live: "\<exists>r. run_twostage_training a passes = Returned r"
    if c: "cosine_budget ?total (n_iters_frac a) = Inr c"
      and pr: "list_all productive passes"
      and len: "max c ?total \<le> int (length passes)" for c
  proof -
    obtain st1 rest where
      s1: "first_stage False c passes (?st0 c) = Returned (st1, rest)" and
      pr1: "list_all productive rest" and
      used: "int (length passes) - int (length rest) \<le> max 0 (c - stage_count (?st0 c))"
      using first_stage_finishes [OF pr, of c "?st0 c"] len by auto
    have c1: "stage_count st1 = max 0 c"
      using first_stage_ends_at [OF s1] by simp
    let ?st1 = "st1\<lparr>stage_scheduler := \<lparr>T_max = ?total - stage_count st1, last_epoch = 0\<rparr>\<rparr>"
    have "?total - stage_count ?st1 \<le> int (length rest)"
      using used len c1 by auto
    then obtain st2 u where s2: "first_stage False ?total rest ?st1 = Returned (st2, u)"
      using first_stage_finishes [OF pr1, of ?total ?st1] by auto
    show ?thesis unfolding run using c s1 s2 by simp
  qed
  show ?thesis using safe live by blast
qed


theorem stage_budgets_without_debug_witness:
  "\<not> debug \<lparr>n_iters = 2, shots = 2, n_iters_frac = 1 / 2, debug = False\<rparr>
   \<and> cosine_budget (2 * 2) (1 / 2) = Inr 2
   \<and> list_all productive
        [[overflow_batch, recovered_batch], [stepped_batch], [stepped_batch, stepped_batch],
         [stepped_batch]]
   \<and> (case run_twostage_training \<lparr>n_iters = 2, shots = 2, n_iters_frac = 1 / 2, debug = False\<rparr>
        [[overflow_batch, recovered_batch], [stepped_batch], [stepped_batch, stepped_batch],
         [stepped_batch]] of
        Returned r \<Rightarrow>
          stage_count (first_stage_end r) = 2
          \<and> stage_scheduler (first_stage_end r) = \<lparr>T_max = 2, last_epoch = 2\<rparr>
          \<and> stage_count (second_stage_end r) = 4
          \<and> stage_scheduler (second_stage_end r) = \<lparr>T_max = 2, last_epoch = 2\<rparr>
      | Raised e \<Rightarrow> False
      | Still_running \<Rightarrow> False)"
  using stage_budgets_without_debug [of "\<lparr>n_iters = 2, shots = 2, n_iters_frac = 1 / 2, debug = False\<rparr>"
      "[[overflow_batch, recovered_batch], [stepped_batch], [stepped_batch, stepped_batch],
         [stepped_batch]]"]
  by (simp add: stage_defs cosine_budget_examples epoch_defs example_defs)

text \<open>
  The claim as it is written fails in each of these runs. With the debug flag on, each
  stage stops after its first pass: for a total of 10 and a fraction of one half, stage 1
  ends at 1 instead of 5 and stage 2 at 2 instead of 10. The budget is not the exact
  product rounded down: for a total of 10 and the float 0.7 the exact product is below 7
  and the float product is 7, which is the budget; for a total of 3 and a fraction of
  minus one half the budget is -1, not -2, and stage 1 leaves the counter at 0. For a
  fraction of three halves stage 1 counts to 3, beyond the total of 2, and stage 2 makes
  no pass. And the counter does not reach a budget when the scaler skips every step, or
  when a pass over the loader is empty.
\<close>

theorem stage_budgets_not_as_claimed:
  "(case run_twostage_training \<lparr>n_iters = 10, shots = 1, n_iters_frac = 1 / 2, debug = True\<rparr>
        [[stepped_batch], [stepped_batch], [stepped_batch]] of
        Returned r \<Rightarrow>
          T_max (stage_scheduler (first_stage_end r)) = 5
          \<and> stage_count (first_stage_end r) = 1
          \<and> T_max (stage_scheduler (second_stage_end r)) = 9
          \<and> stage_count (second_stage_end r) = 2
      | Raised e \<Rightarrow> False
      | Still_running \<Rightarrow> False)
   \<and> \<lfloor>real_of_int (10 * 1) * (3152519739159347 / 4503599627370496)\<rfloor> = 6
   \<and> (case run_twostage_training
          \<lparr>n_iters = 10, shots = 1, n_iters_frac = 3152519739159347 / 4503599627370496,
             debug = False\<rparr>
          [[stepped_batch], [stepped_batch], [stepped_batch], [stepped_batch], [stepped_batch],
           [stepped_batch], [stepped_batch], [stepped_batch], [stepped_batch], [stepped_batch]] of
        Returned r \<Rightarrow>
          T_max (stage_scheduler (first_stage_end r)) = 7
          \<and> stage_count (first_stage_end r) = 7
          \<and> stage_count (second_stage_end r) = 10
      | Raised e \<Rightarrow> False
      | Still_running \<Rightarrow> False)
   \<and> (case run_twostage_training \<lparr>n_iters = 2, shots = 1, n_iters_frac = 3 / 2, debug = False\<rparr>
          [[stepped_batch], [stepped_batch], [stepped_batch]] of
        Returned r \<Rightarrow>
          stage_count (first_stage_end r) = 3
          \<and> T_max (stage_scheduler (second_stage_end r)) = - 1
          \<and> stage_count (second_stage_end r) = 3
      | Raised e \<Rightarrow> False
      | Still_running \<Rightarrow> False)
   \<and> \<lfloor>real_of_int (3 * 1) * (- (1 / 2))\<rfloor> = - 2
   \<and> (case run_twostage_training \<lparr>n_iters = 3, shots = 1, n_iters_frac = - (1 / 2), debug = False\<rparr>
          [[stepped_batch], [stepped_batch], [stepped_batch]] of
        Returned r \<Rightarrow>
          T_max (stage_scheduler (first_stage_end r)) = - 1
          \<and> stage_count (first_stage_end r) = 0
          \<and> stage_count (second_stage_end r) = 3
      | Raised e \<Rightarrow> False
      | Still_running \<Rightarrow> False)
   \<and> run_twostage_training \<lparr>n_iters = 2, shots = 1, n_iters_frac = 1 / 2, debug = False\<rparr>
          [[overflow_batch], [overflow_batch]] = Still_running
   \<and> run_twostage_training \<lparr>n_iters = 2, shots = 1, n_iters_frac = 1 / 2, debug = False\<rparr>
          [[], [stepped_batch]] = Raised ZeroDivisionError"
  by (simp add: stage_defs cosine_budget_examples epoch_defs example_defs)

end
